theory Spec2Isabelle
  imports Main "HOL-Library.Word" "HOL-Library.Sublist"
begin

section \<open>Values of the test application\<close>

text \<open>
  The program is \<^verbatim>\<open>auth/testapp/src/common_main.cc\<close>. A C++ \<^verbatim>\<open>int\<close> is a 32-bit
  word read as two's complement; \<^verbatim>\<open>AuthError\<close> is an enumeration of the SDK whose values
  are such integers. A \<^verbatim>\<open>User*\<close> is an address of 64 bits, \<^verbatim>\<open>nullptr\<close> being 0.
\<close>

type_synonym cint = "32 word"
type_synonym AuthError = cint
type_synonym ptr = "64 word"

abbreviation nullptr :: ptr where
  "nullptr \<equiv> 0"

text \<open>The arguments a call of \<^verbatim>\<open>LogMessage\<close> passes after its format string: a
  \<^verbatim>\<open>const char*\<close> (\<open>None\<close> is the null pointer), an \<^verbatim>\<open>int\<close> or a pointer.\<close>

datatype log_arg = StrArg "string option" | IntArg cint | PtrArg ptr

text \<open>What the program does to the outside, in the order it does it: a line written by
  \<^verbatim>\<open>LogMessage(format, args...)\<close> and a call \<^verbatim>\<open>ProcessEvents(msec)\<close>.\<close>

datatype effect = Logged string "log_arg list" | Pumped cint

subsection \<open>The text of a logged line\<close>

text \<open>
  \<^verbatim>\<open>LogMessage\<close> formats as \<^verbatim>\<open>printf\<close> does. The conversions the program uses are
  \<^verbatim>\<open>%s\<close>, \<^verbatim>\<open>%d\<close>, \<^verbatim>\<open>%x\<close> and \<^verbatim>\<open>%p\<close>; a null string is shown as \<^verbatim>\<open>(null)\<close> and a
  null pointer as \<^verbatim>\<open>(nil)\<close>, which is what the GNU C library prints. Anything else
  (a conversion that does not fit its argument, a missing argument) has no text.
\<close>

definition digit_char :: "nat \<Rightarrow> char" where
  "digit_char d = ''0123456789abcdef'' ! d"

function show_nat :: "nat \<Rightarrow> nat \<Rightarrow> string" where
  "show_nat b n =
     (if b < 2 \<or> n < b then [digit_char n]
      else show_nat b (n div b) @ [digit_char (n mod b)])"
  by pat_completeness auto
termination
  by (relation "measure (\<lambda>(b, n). n)") auto

declare show_nat.simps [simp del]

definition show_int :: "int \<Rightarrow> string" where
  "show_int i = (if i < 0 then CHR ''-'' # show_nat 10 (nat (- i)) else show_nat 10 (nat i))"

fun conversion :: "char \<Rightarrow> log_arg \<Rightarrow> string option" where
  "conversion c (StrArg s) =
     (if c = CHR ''s'' then Some (case s of None \<Rightarrow> ''(null)'' | Some t \<Rightarrow> t) else None)"
| "conversion c (IntArg i) =
     (if c = CHR ''d'' then Some (show_int (sint i))
      else if c = CHR ''x'' then Some (show_nat 16 (unat i))
      else None)"
| "conversion c (PtrArg p) =
     (if c = CHR ''p'' then Some (if p = nullptr then ''(nil)'' else ''0x'' @ show_nat 16 (unat p))
      else None)"

fun format_message :: "string \<Rightarrow> log_arg list \<Rightarrow> string option" where
  "format_message [] args = Some []"
| "format_message [c] args = (if c = CHR ''%'' then None else Some [c])"
| "format_message (c # d # fmt) args =
     (if c = CHR ''%'' then
        (case args of
           [] \<Rightarrow> None
         | a # as \<Rightarrow>
             (case conversion d a of
                None \<Rightarrow> None
              | Some t \<Rightarrow> map_option ((@) t) (format_message fmt as)))
      else map_option ((#) c) (format_message (d # fmt) args))"

definition report_text :: "effect \<Rightarrow> string option" where
  "report_text e = (case e of Logged fmt args \<Rightarrow> format_message fmt args | Pumped msec \<Rightarrow> None)"

text \<open>A report is classified as an error when its line starts with \<^verbatim>\<open>ERROR: \<close>, the
  mark the program puts in front of every failure it logs.\<close>

definition error_report :: "effect \<Rightarrow> bool" where
  "error_report e = (case report_text e of None \<Rightarrow> False | Some t \<Rightarrow> prefix ''ERROR: '' t)"

text \<open>The success report of \<^verbatim>\<open>WaitForFuture\<close> for the call named \<open>fn\<close>.\<close>

definition success_report :: "string \<Rightarrow> effect \<Rightarrow> bool" where
  "success_report fn e =
     (case report_text e of None \<Rightarrow> False | Some t \<Rightarrow> prefix (fn @ '' completed as expected'') t)"

text \<open>Whether a line contains a piece of text.\<close>

definition mentions :: "string \<Rightarrow> effect \<Rightarrow> bool" where
  "mentions s e = (case report_text e of None \<Rightarrow> False | Some t \<Rightarrow> sublist s t)"

subsection \<open>Futures, the SDK and the outside world\<close>

datatype FutureStatus = kFutureStatusComplete | kFutureStatusPending | kFutureStatusInvalid

text \<open>What a future handle shows when it is read: \<^verbatim>\<open>status()\<close>, \<^verbatim>\<open>error()\<close>,
  \<^verbatim>\<open>error_message()\<close> (a \<^verbatim>\<open>const char*\<close>, possibly null) and, for a
  \<^verbatim>\<open>Future<User*>\<close>, \<^verbatim>\<open>result()\<close> (null when there is no result).\<close>

record Future =
  status :: FutureStatus
  error :: cint
  error_message :: "string option"
  result :: "ptr option"

record Auth =
  current_user :: ptr

text \<open>
  The SDK is outside the program: its state is a type parameter \<open>'e\<close>. A future handle
  and an \<^verbatim>\<open>Auth*\<close> are read against that state (\<open>'e \<Rightarrow> Future\<close>, \<open>'e \<Rightarrow> Auth\<close>), and
  \<^verbatim>\<open>ProcessEvents\<close> (declared in \<^verbatim>\<open>main.h\<close>) is a parameter of type
  \<open>cint \<Rightarrow> 'e \<Rightarrow> bool \<times> 'e\<close>: it lets the SDK move on and says whether the application
  should quit. The world is the SDK's state and the trace of effects so far.
\<close>

record 'e world =
  sdk :: 'e
  trace :: "effect list"

text \<open>Modelled from the spec: \<^verbatim>\<open>LogMessage\<close> is declared in \<^verbatim>\<open>main.h\<close> and defined per
  platform, outside the source at hand. The spec has it emit one textual report and
  do nothing else; the report is kept as the format string and its arguments.\<close>

definition LogMessage :: "string \<Rightarrow> log_arg list \<Rightarrow> 'e world \<Rightarrow> 'e world" where
  "LogMessage fmt args w = w\<lparr>trace := trace w @ [Logged fmt args]\<rparr>"

section \<open>WaitForFuture\<close>

text \<open>
  The polling loop of \<^verbatim>\<open>WaitForFuture\<close> (lines 84 to 86). It may run forever, so its
  value is an option: \<open>None\<close> is the loop that never ends. \<open>Some (True, w)\<close> is the
  \<^verbatim>\<open>return true\<close> inside the loop, \<open>Some (False, w)\<close> the loop left because the future
  is no longer pending.
\<close>

partial_function (option) WaitForFuture_loop ::
  "(cint \<Rightarrow> 'e \<Rightarrow> bool \<times> 'e) \<Rightarrow> ('e \<Rightarrow> Future) \<Rightarrow> 'e world \<Rightarrow> (bool \<times> 'e world) option"
where
  "WaitForFuture_loop ProcessEvents future w =
     (if status (future (sdk w)) = kFutureStatusPending then
        (case ProcessEvents 100 (sdk w) of
           (quit, s) \<Rightarrow>
             (if quit then Some (True, w\<lparr>sdk := s, trace := trace w @ [Pumped 100]\<rparr>)
              else WaitForFuture_loop ProcessEvents future
                     (w\<lparr>sdk := s, trace := trace w @ [Pumped 100]\<rparr>)))
      else Some (False, w))"

declare WaitForFuture_loop.simps [code]

definition WaitForFuture ::
  "(cint \<Rightarrow> 'e \<Rightarrow> bool \<times> 'e) \<Rightarrow> ('e \<Rightarrow> Future) \<Rightarrow> string \<Rightarrow> AuthError \<Rightarrow> bool \<Rightarrow> 'e world
     \<Rightarrow> (bool \<times> 'e world) option"
where
  "WaitForFuture ProcessEvents future fn expected_error log_error w =
     (if status (future (sdk w)) = kFutureStatusInvalid then
        Some (False, LogMessage ''ERROR: Future for %s is invalid'' [StrArg (Some fn)] w)
      else
        (case WaitForFuture_loop ProcessEvents future
                (LogMessage ''  Calling %s...'' [StrArg (Some fn)] w) of
           None \<Rightarrow> None
         | Some (True, w1) \<Rightarrow> Some (True, w1)
         | Some (False, w1) \<Rightarrow>
             (if log_error then
                (let error = error (future (sdk w1)) in
                 if error = expected_error then
                   (let error_message = error_message (future (sdk w1)) in
                    if error_message \<noteq> None then
                      Some (False, LogMessage ''%s completed as expected'' [StrArg (Some fn)] w1)
                    else
                      Some (False, LogMessage
                              (''%s completed as expected, error: %d '' @ [CHR 0x27] @ ''%s'' @ [CHR 0x27])
                              [StrArg (Some fn), IntArg error, StrArg error_message] w1))
                 else
                   Some (False, LogMessage ''ERROR: %s completed with error: %d, `%s`''
                           [StrArg (Some fn), IntArg error,
                            StrArg (error_message (future (sdk w1)))] w1))
              else Some (False, w1))))"

definition WaitForSignInFuture ::
  "(cint \<Rightarrow> 'e \<Rightarrow> bool \<times> 'e) \<Rightarrow> ('e \<Rightarrow> Future) \<Rightarrow> string \<Rightarrow> AuthError \<Rightarrow> ('e \<Rightarrow> Auth) \<Rightarrow> 'e world
     \<Rightarrow> (bool \<times> 'e world) option"
where
  "WaitForSignInFuture ProcessEvents sign_in_future fn expected_error auth w =
     (case WaitForFuture ProcessEvents sign_in_future fn expected_error True w of
        None \<Rightarrow> None
      | Some (True, w1) \<Rightarrow> Some (True, w1)
      | Some (False, w1) \<Rightarrow>
          (let sign_in_user_ptr = result (sign_in_future (sdk w1));
               sign_in_user = (case sign_in_user_ptr of None \<Rightarrow> nullptr | Some u \<Rightarrow> u);
               auth_user = current_user (auth (sdk w1))
           in if sign_in_user \<noteq> auth_user then
                Some (False, LogMessage
                  (''ERROR: future'' @ [CHR 0x27] @ ''s user (%x) and current_user (%x) don'' @ [CHR 0x27] @ ''t match'')
                  [IntArg (ucast sign_in_user), IntArg (ucast auth_user)] w1)
              else Some (False, w1)))"

text \<open>
  The state of the SDK after \<open>k\<close> calls \<^verbatim>\<open>ProcessEvents(100)\<close>, and the world after the
  loop has made them. \<open>keeps_waiting\<close> says that each of the first \<open>k\<close> polls finds the
  future pending and is answered \<^verbatim>\<open>false\<close>.
\<close>

fun sdk_after :: "(cint \<Rightarrow> 'e \<Rightarrow> bool \<times> 'e) \<Rightarrow> nat \<Rightarrow> 'e \<Rightarrow> 'e" where
  "sdk_after ProcessEvents 0 s = s"
| "sdk_after ProcessEvents (Suc k) s = sdk_after ProcessEvents k (snd (ProcessEvents 100 s))"

definition polled :: "nat \<Rightarrow> (cint \<Rightarrow> 'e \<Rightarrow> bool \<times> 'e) \<Rightarrow> 'e world \<Rightarrow> 'e world" where
  "polled k ProcessEvents w =
     w\<lparr>sdk := sdk_after ProcessEvents k (sdk w), trace := trace w @ replicate k (Pumped 100)\<rparr>"

fun keeps_waiting :: "(cint \<Rightarrow> 'e \<Rightarrow> bool \<times> 'e) \<Rightarrow> ('e \<Rightarrow> Future) \<Rightarrow> 'e \<Rightarrow> nat \<Rightarrow> bool" where
  "keeps_waiting ProcessEvents future s 0 = True"
| "keeps_waiting ProcessEvents future s (Suc k) =
     (status (future s) = kFutureStatusPending \<and> \<not> fst (ProcessEvents 100 s)
      \<and> keeps_waiting ProcessEvents future (snd (ProcessEvents 100 s)) k)"

section \<open>The listeners that count\<close>

text \<open>
  The fields \<^verbatim>\<open>num_state_changes_\<close> and \<^verbatim>\<open>num_token_changes_\<close> lose their last
  underscore, which a name cannot end with here. Incrementing the largest \<^verbatim>\<open>int\<close> has no
  defined behaviour in C++: there the model has no result (\<open>None\<close>).
\<close>

record AuthStateChangeCounter =
  num_state_changes :: cint

definition AuthStateChangeCounter_new :: AuthStateChangeCounter where
  "AuthStateChangeCounter_new = \<lparr>num_state_changes = 0\<rparr>"

definition OnAuthStateChanged ::
  "('e \<Rightarrow> Auth) \<Rightarrow> AuthStateChangeCounter \<Rightarrow> 'e world \<Rightarrow> (AuthStateChangeCounter \<times> 'e world) option"
where
  "OnAuthStateChanged auth this w =
     (if sint (num_state_changes this) = 2 ^ 31 - 1 then None
      else
        (let this' = this\<lparr>num_state_changes := num_state_changes this + 1\<rparr>
         in Some (this', LogMessage ''OnAuthStateChanged User %p (state changes %d)''
                    [PtrArg (current_user (auth (sdk w))), IntArg (num_state_changes this')] w)))"

definition AuthStateChangeCounter_CompleteTest ::
  "string \<Rightarrow> cint \<Rightarrow> cint \<Rightarrow> AuthStateChangeCounter \<Rightarrow> 'e world \<Rightarrow> AuthStateChangeCounter \<times> 'e world"
where
  "AuthStateChangeCounter_CompleteTest test_name min_state_changes max_state_changes this w =
     (let success = (word_sle min_state_changes (num_state_changes this)
                     \<and> word_sle (num_state_changes this) max_state_changes)
      in (this\<lparr>num_state_changes := 0\<rparr>,
          LogMessage ''%sAuthStateListener called %d time%s on %s.''
            [StrArg (Some (if success then [] else ''ERROR: '')),
             IntArg (num_state_changes this),
             StrArg (Some (if num_state_changes this = 1 then [] else ''s'')),
             StrArg (Some test_name)] w))"

definition AuthStateChangeCounter_CompleteTest_exact ::
  "string \<Rightarrow> cint \<Rightarrow> AuthStateChangeCounter \<Rightarrow> 'e world \<Rightarrow> AuthStateChangeCounter \<times> 'e world"
where
  "AuthStateChangeCounter_CompleteTest_exact test_name expected_state_changes this w =
     AuthStateChangeCounter_CompleteTest test_name expected_state_changes expected_state_changes
       this w"

record IdTokenChangeCounter =
  num_token_changes :: cint

definition IdTokenChangeCounter_new :: IdTokenChangeCounter where
  "IdTokenChangeCounter_new = \<lparr>num_token_changes = 0\<rparr>"

definition OnIdTokenChanged ::
  "('e \<Rightarrow> Auth) \<Rightarrow> IdTokenChangeCounter \<Rightarrow> 'e world \<Rightarrow> (IdTokenChangeCounter \<times> 'e world) option"
where
  "OnIdTokenChanged auth this w =
     (if sint (num_token_changes this) = 2 ^ 31 - 1 then None
      else
        (let this' = this\<lparr>num_token_changes := num_token_changes this + 1\<rparr>
         in Some (this', LogMessage ''OnIdTokenChanged User %p (token changes %d)''
                    [PtrArg (current_user (auth (sdk w))), IntArg (num_token_changes this')] w)))"

definition IdTokenChangeCounter_CompleteTest ::
  "string \<Rightarrow> cint \<Rightarrow> cint \<Rightarrow> IdTokenChangeCounter \<Rightarrow> 'e world \<Rightarrow> IdTokenChangeCounter \<times> 'e world"
where
  "IdTokenChangeCounter_CompleteTest test_name min_token_changes max_token_changes this w =
     (let success = (word_sle min_token_changes (num_token_changes this)
                     \<and> word_sle (num_token_changes this) max_token_changes)
      in (this\<lparr>num_token_changes := 0\<rparr>,
          LogMessage ''%sIdTokenListener called %d time%s on %s.''
            [StrArg (Some (if success then [] else ''ERROR: '')),
             IntArg (num_token_changes this),
             StrArg (Some (if num_token_changes this = 1 then [] else ''s'')),
             StrArg (Some test_name)] w))"

definition IdTokenChangeCounter_CompleteTest_exact ::
  "string \<Rightarrow> cint \<Rightarrow> IdTokenChangeCounter \<Rightarrow> 'e world \<Rightarrow> IdTokenChangeCounter \<times> 'e world"
where
  "IdTokenChangeCounter_CompleteTest_exact test_name token_changes this w =
     IdTokenChangeCounter_CompleteTest test_name token_changes token_changes this w"

text \<open>\<open>n\<close> notifications in a row, as the SDK delivers them to a registered listener.\<close>

fun notified ::
  "('c \<Rightarrow> 'e world \<Rightarrow> ('c \<times> 'e world) option) \<Rightarrow> nat \<Rightarrow> 'c \<Rightarrow> 'e world \<Rightarrow> ('c \<times> 'e world) option"
where
  "notified on_changed 0 this w = Some (this, w)"
| "notified on_changed (Suc n) this w =
     (case on_changed this w of
        None \<Rightarrow> None
      | Some (this', w') \<Rightarrow> notified on_changed n this' w')"

section \<open>Facts about the polling loop\<close>

lemma keeps_waiting_iff:
  "keeps_waiting pe f s k \<longleftrightarrow>
     (\<forall>j<k. status (f (sdk_after pe j s)) = kFutureStatusPending
           \<and> \<not> fst (pe 100 (sdk_after pe j s)))"
proof (induction k arbitrary: s)
  case 0
  show ?case by simp
next
  case (Suc k)
  show ?case
    by (simp add: Suc.IH All_less_Suc2)
qed

lemma polled_sdk [simp]: "sdk (polled k pe w) = sdk_after pe k (sdk w)"
  by (simp add: polled_def)

lemma polled_trace [simp]: "trace (polled k pe w) = trace w @ replicate k (Pumped 100)"
  by (simp add: polled_def)

lemma sdk_after_Suc: "sdk_after pe (Suc k) s = snd (pe 100 (sdk_after pe k s))"
  by (induction k arbitrary: s) simp_all

lemma sdk_LogMessage [simp]: "sdk (LogMessage fmt args w) = sdk w"
  by (simp add: LogMessage_def)

lemma trace_LogMessage [simp]: "trace (LogMessage fmt args w) = trace w @ [Logged fmt args]"
  by (simp add: LogMessage_def)

lemma loop_polled:
  "keeps_waiting pe f (sdk w) k \<Longrightarrow>
     WaitForFuture_loop pe f w = WaitForFuture_loop pe f (polled k pe w)"
proof (induction k arbitrary: w)
  case 0
  then show ?case by (simp add: polled_def)
next
  case (Suc k)
  from Suc.prems have p: "status (f (sdk w)) = kFutureStatusPending"
    and q: "\<not> fst (pe 100 (sdk w))"
    and r: "keeps_waiting pe f (snd (pe 100 (sdk w))) k"
    by simp_all
  let ?w = "w\<lparr>sdk := snd (pe 100 (sdk w)), trace := trace w @ [Pumped 100]\<rparr>"
  have "WaitForFuture_loop pe f w = WaitForFuture_loop pe f ?w"
    using p q by (subst WaitForFuture_loop.simps) (simp add: split_beta)
  also have "\<dots> = WaitForFuture_loop pe f (polled k pe ?w)"
    using r by (intro Suc.IH) simp
  also have "polled k pe ?w = polled (Suc k) pe w"
    by (simp add: polled_def replicate_app_Cons_same)
  finally show ?case .
qed

lemma loop_done:
  "status (f (sdk w)) \<noteq> kFutureStatusPending \<Longrightarrow> WaitForFuture_loop pe f w = Some (False, w)"
  by (subst WaitForFuture_loop.simps) simp

lemma loop_quit:
  "status (f (sdk w)) = kFutureStatusPending \<Longrightarrow> fst (pe 100 (sdk w)) \<Longrightarrow>
     WaitForFuture_loop pe f w = Some (True, polled 1 pe w)"
  by (subst WaitForFuture_loop.simps) (simp add: split_beta polled_def)

lemma loop_leaves:
  assumes "keeps_waiting pe f (sdk w) k"
    and "status (f (sdk_after pe k (sdk w))) \<noteq> kFutureStatusPending"
  shows "WaitForFuture_loop pe f w = Some (False, polled k pe w)"
  using loop_polled [OF assms(1)] loop_done [of f "polled k pe w" pe] assms(2) by simp

lemma loop_shutdown:
  assumes "keeps_waiting pe f (sdk w) k"
    and "status (f (sdk_after pe k (sdk w))) = kFutureStatusPending"
    and "fst (pe 100 (sdk_after pe k (sdk w)))"
  shows "WaitForFuture_loop pe f w = Some (True, polled (Suc k) pe w)"
proof -
  have "WaitForFuture_loop pe f w = WaitForFuture_loop pe f (polled k pe w)"
    by (rule loop_polled [OF assms(1)])
  also have "\<dots> = Some (True, polled 1 pe (polled k pe w))"
    using assms(2,3) by (intro loop_quit) simp_all
  also have "polled 1 pe (polled k pe w) = polled (Suc k) pe w"
    by (simp add: polled_def sdk_after_Suc replicate_append_same del: sdk_after.simps(2))
  finally show ?thesis .
qed

lemma keeps_waiting_not_invalid:
  "keeps_waiting pe f s k \<Longrightarrow> status (f (sdk_after pe k s)) \<noteq> kFutureStatusInvalid \<Longrightarrow>
     status (f s) \<noteq> kFutureStatusInvalid"
  by (cases k) auto

text \<open>What \<^verbatim>\<open>WaitForFuture\<close> does once the loop is left after \<open>k\<close> polls.\<close>

lemma WaitForFuture_after_polls:
  assumes "keeps_waiting pe f (sdk w) k"
    and "status (f (sdk_after pe k (sdk w))) = kFutureStatusComplete"
  shows "WaitForFuture pe f fn expected_error log_error w =
     (let w1 = polled k pe (LogMessage ''  Calling %s...'' [StrArg (Some fn)] w);
          e = error (f (sdk w1)); m = error_message (f (sdk w1))
      in Some (False,
           if log_error then
             (if e = expected_error then
                (if m \<noteq> None then LogMessage ''%s completed as expected'' [StrArg (Some fn)] w1
                 else LogMessage
                   (''%s completed as expected, error: %d '' @ [CHR 0x27] @ ''%s'' @ [CHR 0x27])
                   [StrArg (Some fn), IntArg e, StrArg m] w1)
              else LogMessage ''ERROR: %s completed with error: %d, `%s`''
                     [StrArg (Some fn), IntArg e, StrArg m] w1)
           else w1))"
proof -
  let ?w = "LogMessage ''  Calling %s...'' [StrArg (Some fn)] w"
  have "status (f (sdk w)) \<noteq> kFutureStatusInvalid"
    using keeps_waiting_not_invalid [of pe f "sdk w" k] assms by simp
  moreover have "WaitForFuture_loop pe f ?w = Some (False, polled k pe ?w)"
    using assms by (intro loop_leaves) simp_all
  ultimately show ?thesis
    unfolding WaitForFuture_def by (simp add: Let_def del: sdk_after.simps)
qed

subsection \<open>The text of the reports\<close>

lemma text_calling:
  "report_text (Logged ''  Calling %s...'' [StrArg (Some fn)]) = Some (''  Calling '' @ fn @ ''...'')"
  by (simp add: report_text_def)

lemma text_invalid:
  "report_text (Logged ''ERROR: Future for %s is invalid'' [StrArg (Some fn)]) =
     Some (''ERROR: Future for '' @ fn @ '' is invalid'')"
  by (simp add: report_text_def)

lemma text_expected:
  "report_text (Logged ''%s completed as expected'' [StrArg (Some fn)]) =
     Some (fn @ '' completed as expected'')"
  by (simp add: report_text_def)

lemma text_expected_null:
  "report_text (Logged (''%s completed as expected, error: %d '' @ [CHR 0x27] @ ''%s'' @ [CHR 0x27])
       [StrArg (Some fn), IntArg e, StrArg None]) =
     Some (fn @ '' completed as expected, error: '' @ show_int (sint e) @ '' '' @ [CHR 0x27]
             @ ''(null)'' @ [CHR 0x27])"
  by (simp add: report_text_def)

lemma text_mismatch:
  "report_text (Logged ''ERROR: %s completed with error: %d, `%s`''
       [StrArg (Some fn), IntArg e, StrArg m]) =
     Some (''ERROR: '' @ fn @ '' completed with error: '' @ show_int (sint e) @ '', `''
             @ (case m of None \<Rightarrow> ''(null)'' | Some t \<Rightarrow> t) @ ''`'')"
  by (simp add: report_text_def)

lemma success_report_expected:
  "success_report fn (Logged ''%s completed as expected'' [StrArg (Some fn)])"
  unfolding success_report_def text_expected by simp

lemma success_report_expected_null:
  "success_report fn
     (Logged (''%s completed as expected, error: %d '' @ [CHR 0x27] @ ''%s'' @ [CHR 0x27])
        [StrArg (Some fn), IntArg e, StrArg None])"
  unfolding success_report_def text_expected_null by simp

lemma error_report_mismatch:
  "error_report (Logged ''ERROR: %s completed with error: %d, `%s`''
     [StrArg (Some fn), IntArg e, StrArg m])"
  unfolding error_report_def text_mismatch by simp

lemma mentions_mismatch_code:
  "mentions (show_int (sint e)) (Logged ''ERROR: %s completed with error: %d, `%s`''
     [StrArg (Some fn), IntArg e, StrArg m])"
  unfolding mentions_def text_mismatch option.case
  by (metis sublist_appendI append.assoc)

lemma mentions_mismatch_message:
  "mentions t (Logged ''ERROR: %s completed with error: %d, `%s`''
     [StrArg (Some fn), IntArg e, StrArg (Some t)])"
  unfolding mentions_def text_mismatch option.case
  by (metis sublist_appendI append.assoc)

section \<open>Facts about the counters\<close>

lemma sint_inc:
  fixes c :: cint
  assumes "sint c \<noteq> 2 ^ 31 - 1"
  shows "sint (c + 1) = sint c + 1"
proof -
  have "sint c < 2 ^ 31" "- (2 ^ 31) \<le> sint c"
    using sint_lt [of c] sint_ge [of c] by simp_all
  with assms have b: "- (2 ^ 31) \<le> sint c + 1" "sint c + 1 < 2 ^ 31"
    by simp_all
  have "sint (c + 1) = signed_take_bit 31 (sint c + 1)"
    by (simp add: sint_word_ariths)
  also have "\<dots> = sint c + 1"
    using b by (simp add: signed_take_bit_int_eq_self)
  finally show ?thesis .
qed

lemma notified_OnAuthStateChanged:
  assumes "sint (num_state_changes this) + int n < 2 ^ 31"
  shows "\<exists>this1 w1. notified (OnAuthStateChanged auth) n this w = Some (this1, w1)
           \<and> sint (num_state_changes this1) = sint (num_state_changes this) + int n
           \<and> sdk w1 = sdk w"
  using assms
proof (induction n arbitrary: this w)
  case 0
  show ?case by simp
next
  case (Suc n)
  let ?c = "this\<lparr>num_state_changes := num_state_changes this + 1\<rparr>"
  let ?v = "LogMessage ''OnAuthStateChanged User %p (state changes %d)''
              [PtrArg (current_user (auth (sdk w))), IntArg (num_state_changes ?c)] w"
  from Suc.prems have ne: "sint (num_state_changes this) \<noteq> 2 ^ 31 - 1"
    by simp
  then have step: "OnAuthStateChanged auth this w = Some (?c, ?v)"
    by (simp add: OnAuthStateChanged_def Let_def)
  have inc: "sint (num_state_changes ?c) = sint (num_state_changes this) + 1"
    using sint_inc [OF ne] by simp
  with Suc.prems have "sint (num_state_changes ?c) + int n < 2 ^ 31"
    by simp
  from Suc.IH [OF this, of ?v] obtain this1 w1 where
    "notified (OnAuthStateChanged auth) n ?c ?v = Some (this1, w1)"
    "sint (num_state_changes this1) = sint (num_state_changes ?c) + int n"
    "sdk w1 = sdk ?v"
    by blast
  with step inc show ?case
    by simp
qed

lemma notified_OnIdTokenChanged:
  assumes "sint (num_token_changes this) + int n < 2 ^ 31"
  shows "\<exists>this1 w1. notified (OnIdTokenChanged auth) n this w = Some (this1, w1)
           \<and> sint (num_token_changes this1) = sint (num_token_changes this) + int n
           \<and> sdk w1 = sdk w"
  using assms
proof (induction n arbitrary: this w)
  case 0
  show ?case by simp
next
  case (Suc n)
  let ?c = "this\<lparr>num_token_changes := num_token_changes this + 1\<rparr>"
  let ?v = "LogMessage ''OnIdTokenChanged User %p (token changes %d)''
              [PtrArg (current_user (auth (sdk w))), IntArg (num_token_changes ?c)] w"
  from Suc.prems have ne: "sint (num_token_changes this) \<noteq> 2 ^ 31 - 1"
    by simp
  then have step: "OnIdTokenChanged auth this w = Some (?c, ?v)"
    by (simp add: OnIdTokenChanged_def Let_def)
  have inc: "sint (num_token_changes ?c) = sint (num_token_changes this) + 1"
    using sint_inc [OF ne] by simp
  with Suc.prems have "sint (num_token_changes ?c) + int n < 2 ^ 31"
    by simp
  from Suc.IH [OF this, of ?v] obtain this1 w1 where
    "notified (OnIdTokenChanged auth) n ?c ?v = Some (this1, w1)"
    "sint (num_token_changes this1) = sint (num_token_changes ?c) + int n"
    "sdk w1 = sdk ?v"
    by blast
  with step inc show ?case
    by simp
qed

lemma text_AuthStateListener:
  "report_text (Logged ''%sAuthStateListener called %d time%s on %s.''
       [StrArg (Some tag), IntArg c, StrArg (Some plural), StrArg (Some test_name)]) =
     Some (tag @ ''AuthStateListener called '' @ show_int (sint c) @ '' time'' @ plural
             @ '' on '' @ test_name @ ''.'')"
  by (simp add: report_text_def)

lemma text_IdTokenListener:
  "report_text (Logged ''%sIdTokenListener called %d time%s on %s.''
       [StrArg (Some tag), IntArg c, StrArg (Some plural), StrArg (Some test_name)]) =
     Some (tag @ ''IdTokenListener called '' @ show_int (sint c) @ '' time'' @ plural
             @ '' on '' @ test_name @ ''.'')"
  by (simp add: report_text_def)

lemma error_report_AuthStateListener:
  "\<not> error_report (Logged ''%sAuthStateListener called %d time%s on %s.''
       [StrArg (Some []), IntArg c, StrArg (Some plural), StrArg (Some test_name)])"
  "error_report (Logged ''%sAuthStateListener called %d time%s on %s.''
       [StrArg (Some ''ERROR: ''), IntArg c, StrArg (Some plural), StrArg (Some test_name)])"
  unfolding error_report_def text_AuthStateListener by simp_all

lemma error_report_IdTokenListener:
  "\<not> error_report (Logged ''%sIdTokenListener called %d time%s on %s.''
       [StrArg (Some []), IntArg c, StrArg (Some plural), StrArg (Some test_name)])"
  "error_report (Logged ''%sIdTokenListener called %d time%s on %s.''
       [StrArg (Some ''ERROR: ''), IntArg c, StrArg (Some plural), StrArg (Some test_name)])"
  unfolding error_report_def text_IdTokenListener by simp_all

text \<open>What the two \<^verbatim>\<open>CompleteTest\<close> do on a counter holding any count.\<close>

lemma AuthStateChangeCounter_CompleteTest_report:
  "AuthStateChangeCounter_CompleteTest test_name mn mx this w = (this2, w2) \<Longrightarrow>
     num_state_changes this2 = 0 \<and> sdk w2 = sdk w
     \<and> trace w2 = trace w @ [last (trace w2)]
     \<and> (error_report (last (trace w2)) \<longleftrightarrow>
          \<not> (sint mn \<le> sint (num_state_changes this) \<and> sint (num_state_changes this) \<le> sint mx))"
  by (auto simp: AuthStateChangeCounter_CompleteTest_def Let_def word_sle_eq
      error_report_AuthStateListener)

lemma IdTokenChangeCounter_CompleteTest_report:
  "IdTokenChangeCounter_CompleteTest test_name mn mx this w = (this2, w2) \<Longrightarrow>
     num_token_changes this2 = 0 \<and> sdk w2 = sdk w
     \<and> trace w2 = trace w @ [last (trace w2)]
     \<and> (error_report (last (trace w2)) \<longleftrightarrow>
          \<not> (sint mn \<le> sint (num_token_changes this) \<and> sint (num_token_changes this) \<le> sint mx))"
  by (auto simp: IdTokenChangeCounter_CompleteTest_def Let_def word_sle_eq
      error_report_IdTokenListener)

lemma sint_of_nat_cint:
  "n < 2 ^ 31 \<Longrightarrow> sint (of_nat n :: cint) = int n"
  by (simp add: signed_of_nat signed_take_bit_int_eq_self)

lemma notified_AuthStateChangeCounter_new:
  assumes "n < 2 ^ 31"
  shows "\<exists>this1 w1. notified (OnAuthStateChanged auth) n AuthStateChangeCounter_new w = Some (this1, w1)
           \<and> sint (num_state_changes this1) = int n \<and> sdk w1 = sdk w"
  using notified_OnAuthStateChanged [of AuthStateChangeCounter_new n auth w] assms
  by (simp add: AuthStateChangeCounter_new_def)

lemma notified_IdTokenChangeCounter_new:
  assumes "n < 2 ^ 31"
  shows "\<exists>this1 w1. notified (OnIdTokenChanged auth) n IdTokenChangeCounter_new w = Some (this1, w1)
           \<and> sint (num_token_changes this1) = int n \<and> sdk w1 = sdk w"
  using notified_OnIdTokenChanged [of IdTokenChangeCounter_new n auth w] assms
  by (simp add: IdTokenChangeCounter_new_def)

lemma AuthStateChangeCounter_CompleteTest_new:
  "fst (AuthStateChangeCounter_CompleteTest test_name mn mx this w) = AuthStateChangeCounter_new"
  by (simp add: AuthStateChangeCounter_CompleteTest_def AuthStateChangeCounter_new_def Let_def)

lemma IdTokenChangeCounter_CompleteTest_new:
  "fst (IdTokenChangeCounter_CompleteTest test_name mn mx this w) = IdTokenChangeCounter_new"
  by (simp add: IdTokenChangeCounter_CompleteTest_def IdTokenChangeCounter_new_def Let_def)

lemma OnAuthStateChanged_adds_one:
  "case OnAuthStateChanged auth this w of
     None \<Rightarrow> sint (num_state_changes this) = 2 ^ 31 - 1
   | Some (this1, w1) \<Rightarrow> sint (num_state_changes this1) = sint (num_state_changes this) + 1"
  using sint_inc [of "num_state_changes this"]
  by (simp add: OnAuthStateChanged_def Let_def)

lemma OnIdTokenChanged_adds_one:
  "case OnIdTokenChanged auth this w of
     None \<Rightarrow> sint (num_token_changes this) = 2 ^ 31 - 1
   | Some (this1, w1) \<Rightarrow> sint (num_token_changes this1) = sint (num_token_changes this) + 1"
  using sint_inc [of "num_token_changes this"]
  by (simp add: OnIdTokenChanged_def Let_def)

lemma AuthStateChangeCounter_exact_then_zero:
  assumes "sint (num_state_changes this1) = int n" and "n < 2 ^ 31"
  shows "case AuthStateChangeCounter_CompleteTest test_name (of_nat n) (of_nat n) this1 w1 of
           (this2, w2) \<Rightarrow>
             num_state_changes this2 = 0 \<and> \<not> error_report (last (trace w2))
             \<and> (case AuthStateChangeCounter_CompleteTest test_name 0 0 this2 w2 of
                   (this3, w3) \<Rightarrow> num_state_changes this3 = 0 \<and> \<not> error_report (last (trace w3)))"
proof -
  obtain this2 w2 where
    t: "AuthStateChangeCounter_CompleteTest test_name (of_nat n) (of_nat n) this1 w1 = (this2, w2)"
    by (cases "AuthStateChangeCounter_CompleteTest test_name (of_nat n) (of_nat n) this1 w1")
  obtain this3 w3 where
    u: "AuthStateChangeCounter_CompleteTest test_name 0 0 this2 w2 = (this3, w3)"
    by (cases "AuthStateChangeCounter_CompleteTest test_name 0 0 this2 w2")
  from AuthStateChangeCounter_CompleteTest_report [OF t] assms
  have a: "num_state_changes this2 = 0" "\<not> error_report (last (trace w2))"
    by (simp_all add: sint_of_nat_cint)
  from AuthStateChangeCounter_CompleteTest_report [OF u] a(1)
  have "num_state_changes this3 = 0" "\<not> error_report (last (trace w3))"
    by simp_all
  with a show ?thesis
    by (simp add: t u)
qed

lemma IdTokenChangeCounter_exact_then_zero:
  assumes "sint (num_token_changes this1) = int n" and "n < 2 ^ 31"
  shows "case IdTokenChangeCounter_CompleteTest test_name (of_nat n) (of_nat n) this1 w1 of
           (this2, w2) \<Rightarrow>
             num_token_changes this2 = 0 \<and> \<not> error_report (last (trace w2))
             \<and> (case IdTokenChangeCounter_CompleteTest test_name 0 0 this2 w2 of
                   (this3, w3) \<Rightarrow> num_token_changes this3 = 0 \<and> \<not> error_report (last (trace w3)))"
proof -
  obtain this2 w2 where
    t: "IdTokenChangeCounter_CompleteTest test_name (of_nat n) (of_nat n) this1 w1 = (this2, w2)"
    by (cases "IdTokenChangeCounter_CompleteTest test_name (of_nat n) (of_nat n) this1 w1")
  obtain this3 w3 where
    u: "IdTokenChangeCounter_CompleteTest test_name 0 0 this2 w2 = (this3, w3)"
    by (cases "IdTokenChangeCounter_CompleteTest test_name 0 0 this2 w2")
  from IdTokenChangeCounter_CompleteTest_report [OF t] assms
  have a: "num_token_changes this2 = 0" "\<not> error_report (last (trace w2))"
    by (simp_all add: sint_of_nat_cint)
  from IdTokenChangeCounter_CompleteTest_report [OF u] a(1)
  have "num_token_changes this3 = 0" "\<not> error_report (last (trace w3))"
    by simp_all
  with a show ?thesis
    by (simp add: t u)
qed

section \<open>The claims about WaitForFuture\<close>

text \<open>
  C1. Whenever a call of \<^verbatim>\<open>ProcessEvents\<close> made by the polling loop answers \<^verbatim>\<open>true\<close>
  (the first \<open>k\<close> polls found the future pending and were answered \<^verbatim>\<open>false\<close>, the
  next one finds it pending and is answered \<^verbatim>\<open>true\<close>), \<^verbatim>\<open>WaitForFuture\<close> returns
  \<^verbatim>\<open>true\<close> right after that call: the trace ends with that poll, no completion report is
  written, and the state of the future after the poll plays no part. With \<open>k = 0\<close>
  the pump answers \<^verbatim>\<open>true\<close> on the first poll and there is exactly one poll.
\<close>

theorem WaitForFuture_shutdown:
  assumes "\<forall>j<k. status (future (sdk_after ProcessEvents j (sdk w))) = kFutureStatusPending
                \<and> \<not> fst (ProcessEvents 100 (sdk_after ProcessEvents j (sdk w)))"
    and "status (future (sdk_after ProcessEvents k (sdk w))) = kFutureStatusPending"
    and "fst (ProcessEvents 100 (sdk_after ProcessEvents k (sdk w)))"
  shows "WaitForFuture ProcessEvents future fn expected_error log_error w =
           Some (True, w\<lparr>sdk := sdk_after ProcessEvents (Suc k) (sdk w),
                         trace := trace w @ Logged ''  Calling %s...'' [StrArg (Some fn)]
                                    # replicate (Suc k) (Pumped 100)\<rparr>)"
proof -
  let ?w = "LogMessage ''  Calling %s...'' [StrArg (Some fn)] w"
  have kw: "keeps_waiting ProcessEvents future (sdk ?w) k"
    using assms(1) by (simp add: keeps_waiting_iff)
  have "status (future (sdk w)) \<noteq> kFutureStatusInvalid"
    using keeps_waiting_not_invalid [of ProcessEvents future "sdk w" k] kw assms(2) by simp
  moreover have "WaitForFuture_loop ProcessEvents future ?w = Some (True, polled (Suc k) ProcessEvents ?w)"
    using kw assms(2,3) by (intro loop_shutdown) simp_all
  ultimately show ?thesis
    unfolding WaitForFuture_def by (simp add: polled_def LogMessage_def del: sdk_after.simps)
qed

theorem WaitForFuture_shutdown_witness:
  "WaitForFuture (\<lambda>msec n. (True, Suc n))
     (\<lambda>n. \<lparr>status = kFutureStatusPending, error = 0, error_message = None, result = None\<rparr>)
     ''Auth::SignInAnonymously()'' 0 True \<lparr>sdk = 0::nat, trace = []\<rparr> =
   Some (True, \<lparr>sdk = 1, trace = [Logged ''  Calling %s...'' [StrArg (Some ''Auth::SignInAnonymously()'')],
                                   Pumped 100]\<rparr>)
   \<and> WaitForFuture (\<lambda>msec n. (n = 2, Suc n))
     (\<lambda>n. \<lparr>status = kFutureStatusPending, error = 0, error_message = None, result = None\<rparr>)
     ''Auth::SignInAnonymously()'' 0 True \<lparr>sdk = 0::nat, trace = []\<rparr> =
   Some (True, \<lparr>sdk = 3, trace = [Logged ''  Calling %s...'' [StrArg (Some ''Auth::SignInAnonymously()'')],
                                   Pumped 100, Pumped 100, Pumped 100]\<rparr>)"
  using WaitForFuture_shutdown [where k = 0 and ProcessEvents = "\<lambda>msec n. (True, Suc n)"
      and future = "\<lambda>n. \<lparr>status = kFutureStatusPending, error = 0, error_message = None, result = None\<rparr>"
      and w = "\<lparr>sdk = 0::nat, trace = []\<rparr>" and fn = "''Auth::SignInAnonymously()''"
      and expected_error = 0 and log_error = True]
    WaitForFuture_shutdown [where k = 2 and ProcessEvents = "\<lambda>msec n. (n = 2, Suc n)"
      and future = "\<lambda>n. \<lparr>status = kFutureStatusPending, error = 0, error_message = None, result = None\<rparr>"
      and w = "\<lparr>sdk = 0::nat, trace = []\<rparr>" and fn = "''Auth::SignInAnonymously()''"
      and expected_error = 0 and log_error = True]
  by (simp add: eval_nat_numeral All_less_Suc)

text \<open>
  C5. A future that is invalid when \<^verbatim>\<open>WaitForFuture\<close> is called gets one report, classified
  as an error, that says so; \<^verbatim>\<open>ProcessEvents\<close> is never called (whatever it would do) and
  the result is \<^verbatim>\<open>false\<close>.
\<close>

theorem WaitForFuture_invalid:
  assumes "status (future (sdk w)) = kFutureStatusInvalid"
  shows "WaitForFuture ProcessEvents future fn expected_error log_error w =
           Some (False, w\<lparr>trace := trace w @ [Logged ''ERROR: Future for %s is invalid'' [StrArg (Some fn)]]\<rparr>)
         \<and> error_report (Logged ''ERROR: Future for %s is invalid'' [StrArg (Some fn)])
         \<and> report_text (Logged ''ERROR: Future for %s is invalid'' [StrArg (Some fn)]) =
             Some (''ERROR: Future for '' @ fn @ '' is invalid'')"
  using assms by (simp add: WaitForFuture_def LogMessage_def error_report_def text_invalid)

theorem WaitForFuture_invalid_witness:
  "WaitForFuture (\<lambda>msec n. (True, Suc n))
     (\<lambda>n. \<lparr>status = kFutureStatusInvalid, error = 0, error_message = None, result = None\<rparr>)
     ''User::Delete()'' 0 True \<lparr>sdk = 0::nat, trace = []\<rparr> =
   Some (False, \<lparr>sdk = 0, trace = [Logged ''ERROR: Future for %s is invalid'' [StrArg (Some ''User::Delete()'')]]\<rparr>)
   \<and> report_text (Logged ''ERROR: Future for %s is invalid'' [StrArg (Some ''User::Delete()'')]) =
       Some ''ERROR: Future for User::Delete() is invalid''"
  using WaitForFuture_invalid [where ProcessEvents = "\<lambda>msec n. (True, Suc n)"
      and future = "\<lambda>n. \<lparr>status = kFutureStatusInvalid, error = 0, error_message = None, result = None\<rparr>"
      and w = "\<lparr>sdk = 0::nat, trace = []\<rparr>" and fn = "''User::Delete()''"
      and expected_error = 0 and log_error = True]
  by simp

text \<open>
  C2. With logging on, a future seen complete (at once or after \<open>k\<close> unanswered polls) whose
  error code is the expected one gets exactly one report after the polls, a success
  report (\<^verbatim>\<open><fn> completed as expected\<close>), and the result is \<^verbatim>\<open>false\<close>.
\<close>

theorem WaitForFuture_expected:
  assumes "\<forall>j<k. status (future (sdk_after ProcessEvents j (sdk w))) = kFutureStatusPending
                \<and> \<not> fst (ProcessEvents 100 (sdk_after ProcessEvents j (sdk w)))"
    and "status (future (sdk_after ProcessEvents k (sdk w))) = kFutureStatusComplete"
    and "error (future (sdk_after ProcessEvents k (sdk w))) = expected_error"
  shows "let report =
           (if error_message (future (sdk_after ProcessEvents k (sdk w))) \<noteq> None
            then Logged ''%s completed as expected'' [StrArg (Some fn)]
            else Logged (''%s completed as expected, error: %d '' @ [CHR 0x27] @ ''%s'' @ [CHR 0x27])
                   [StrArg (Some fn), IntArg expected_error, StrArg None])
         in WaitForFuture ProcessEvents future fn expected_error True w =
              Some (False, w\<lparr>sdk := sdk_after ProcessEvents k (sdk w),
                             trace := trace w @ Logged ''  Calling %s...'' [StrArg (Some fn)]
                                        # replicate k (Pumped 100) @ [report]\<rparr>)
            \<and> success_report fn report"
proof -
  have kw: "keeps_waiting ProcessEvents future (sdk w) k"
    using assms(1) by (simp add: keeps_waiting_iff)
  show ?thesis
    unfolding WaitForFuture_after_polls [OF kw assms(2)] Let_def
    using assms(3)
    by (simp add: polled_def LogMessage_def success_report_expected success_report_expected_null [simplified]
          del: sdk_after.simps)
qed

theorem WaitForFuture_expected_witness:
  "WaitForFuture (\<lambda>msec n. (False, Suc n))
     (\<lambda>n. \<lparr>status = kFutureStatusComplete, error = 0, error_message = Some [], result = None\<rparr>)
     ''GetToken()'' 0 True \<lparr>sdk = 0::nat, trace = []\<rparr> =
   Some (False, \<lparr>sdk = 0, trace = [Logged ''  Calling %s...'' [StrArg (Some ''GetToken()'')],
                                    Logged ''%s completed as expected'' [StrArg (Some ''GetToken()'')]]\<rparr>)
   \<and> success_report ''GetToken()'' (Logged ''%s completed as expected'' [StrArg (Some ''GetToken()'')])"
  using WaitForFuture_expected [where k = 0 and ProcessEvents = "\<lambda>msec n. (False, Suc n)"
      and future = "\<lambda>n. \<lparr>status = kFutureStatusComplete, error = 0, error_message = Some [], result = None\<rparr>"
      and w = "\<lparr>sdk = 0::nat, trace = []\<rparr>" and fn = "''GetToken()''" and expected_error = 0]
  by (simp add: Let_def)

text \<open>
  C3, as amended. With logging on, a complete future whose error code is not the expected
  one gets exactly one report, classified as an error, whose text holds the name of the
  call, the error code the future settled with and its error message (a null message is
  printed as \<^verbatim>\<open>(null)\<close>); the result is \<^verbatim>\<open>false\<close>. The expected code is not among the
  values the report is formatted from.
\<close>

theorem WaitForFuture_mismatch:
  assumes "\<forall>j<k. status (future (sdk_after ProcessEvents j (sdk w))) = kFutureStatusPending
                \<and> \<not> fst (ProcessEvents 100 (sdk_after ProcessEvents j (sdk w)))"
    and "status (future (sdk_after ProcessEvents k (sdk w))) = kFutureStatusComplete"
    and "error (future (sdk_after ProcessEvents k (sdk w))) \<noteq> expected_error"
  shows "let e = error (future (sdk_after ProcessEvents k (sdk w)));
             m = error_message (future (sdk_after ProcessEvents k (sdk w)));
             report = Logged ''ERROR: %s completed with error: %d, `%s`''
                        [StrArg (Some fn), IntArg e, StrArg m]
         in WaitForFuture ProcessEvents future fn expected_error True w =
              Some (False, w\<lparr>sdk := sdk_after ProcessEvents k (sdk w),
                             trace := trace w @ Logged ''  Calling %s...'' [StrArg (Some fn)]
                                        # replicate k (Pumped 100) @ [report]\<rparr>)
            \<and> error_report report
            \<and> IntArg expected_error \<notin> set [StrArg (Some fn), IntArg e, StrArg m]
            \<and> mentions (show_int (sint e)) report
            \<and> (\<forall>t. m = Some t \<longrightarrow> mentions t report)
            \<and> report_text report =
                Some (''ERROR: '' @ fn @ '' completed with error: '' @ show_int (sint e) @ '', `''
                        @ (case m of None \<Rightarrow> ''(null)'' | Some t \<Rightarrow> t) @ ''`'')"
proof -
  have kw: "keeps_waiting ProcessEvents future (sdk w) k"
    using assms(1) by (simp add: keeps_waiting_iff)
  show ?thesis
    unfolding WaitForFuture_after_polls [OF kw assms(2)] Let_def
    using assms(3) assms(3) [symmetric]
    by (simp add: polled_def LogMessage_def error_report_mismatch mentions_mismatch_code
          mentions_mismatch_message text_mismatch del: sdk_after.simps)
qed

theorem WaitForFuture_mismatch_witness:
  "WaitForFuture (\<lambda>msec n. (False, Suc n))
     (\<lambda>n. \<lparr>status = kFutureStatusComplete, error = 1, error_message = Some ''bad'', result = None\<rparr>)
     ''User::Reload()'' 0 True \<lparr>sdk = 0::nat, trace = []\<rparr> =
   Some (False, \<lparr>sdk = 0, trace = [Logged ''  Calling %s...'' [StrArg (Some ''User::Reload()'')],
                                    Logged ''ERROR: %s completed with error: %d, `%s`''
                                      [StrArg (Some ''User::Reload()''), IntArg 1, StrArg (Some ''bad'')]]\<rparr>)
   \<and> report_text (Logged ''ERROR: %s completed with error: %d, `%s`''
                    [StrArg (Some ''User::Reload()''), IntArg 1, StrArg (Some ''bad'')]) =
       Some ''ERROR: User::Reload() completed with error: 1, `bad`''"
proof -
  have s: "show_int 1 = ''1''"
    by code_simp
  show ?thesis
    using WaitForFuture_mismatch [where k = 0 and ProcessEvents = "\<lambda>msec n. (False, Suc n)"
      and future = "\<lambda>n. \<lparr>status = kFutureStatusComplete, error = 1, error_message = Some ''bad'', result = None\<rparr>"
      and w = "\<lparr>sdk = 0::nat, trace = []\<rparr>" and fn = "''User::Reload()''" and expected_error = 0]
    by (simp add: Let_def s)
qed

text \<open>
  C3, as stated, fails: \<^verbatim>\<open>User::Reload()\<close> expected to settle with 0 and settling with 1
  gets the report \<^verbatim>\<open>ERROR: User::Reload() completed with error: 1, `bad`\<close>, and no line
  written by the call contains the expected code 0.
\<close>

theorem WaitForFuture_mismatch_omits_expected:
  "WaitForFuture (\<lambda>msec n. (False, Suc n))
     (\<lambda>n. \<lparr>status = kFutureStatusComplete, error = 1, error_message = Some ''bad'', result = None\<rparr>)
     ''User::Reload()'' 0 True \<lparr>sdk = 0::nat, trace = []\<rparr> =
   Some (False, \<lparr>sdk = 0, trace = [Logged ''  Calling %s...'' [StrArg (Some ''User::Reload()'')],
                                    Logged ''ERROR: %s completed with error: %d, `%s`''
                                      [StrArg (Some ''User::Reload()''), IntArg 1, StrArg (Some ''bad'')]]\<rparr>)
   \<and> show_int (sint (0 :: AuthError)) = ''0''
   \<and> \<not> mentions (show_int (sint (0 :: AuthError)))
          (Logged ''  Calling %s...'' [StrArg (Some ''User::Reload()'')])
   \<and> \<not> mentions (show_int (sint (0 :: AuthError)))
          (Logged ''ERROR: %s completed with error: %d, `%s`''
             [StrArg (Some ''User::Reload()''), IntArg 1, StrArg (Some ''bad'')])"
  by code_simp

text \<open>
  C6. The future is pending, the first two polls are answered \<^verbatim>\<open>false\<close> (the future still
  pending after the first), and after the second the future is complete with the expected
  code: \<^verbatim>\<open>WaitForFuture\<close> calls \<^verbatim>\<open>ProcessEvents\<close> exactly twice, writes a success report
  and returns \<^verbatim>\<open>false\<close>.
\<close>

theorem WaitForFuture_two_polls:
  assumes "status (future (sdk w)) = kFutureStatusPending"
    and "\<not> fst (ProcessEvents 100 (sdk w))"
    and "status (future (snd (ProcessEvents 100 (sdk w)))) = kFutureStatusPending"
    and "\<not> fst (ProcessEvents 100 (snd (ProcessEvents 100 (sdk w))))"
    and "status (future (snd (ProcessEvents 100 (snd (ProcessEvents 100 (sdk w)))))) =
           kFutureStatusComplete"
    and "error (future (snd (ProcessEvents 100 (snd (ProcessEvents 100 (sdk w)))))) =
           expected_error"
  shows "let report =
           (if error_message (future (snd (ProcessEvents 100 (snd (ProcessEvents 100 (sdk w))))))
                 \<noteq> None
            then Logged ''%s completed as expected'' [StrArg (Some fn)]
            else Logged (''%s completed as expected, error: %d '' @ [CHR 0x27] @ ''%s'' @ [CHR 0x27])
                   [StrArg (Some fn), IntArg expected_error, StrArg None])
         in WaitForFuture ProcessEvents future fn expected_error True w =
              Some (False, w\<lparr>sdk := snd (ProcessEvents 100 (snd (ProcessEvents 100 (sdk w)))),
                             trace := trace w @ [Logged ''  Calling %s...'' [StrArg (Some fn)],
                                                 Pumped 100, Pumped 100, report]\<rparr>)
            \<and> success_report fn report"
proof -
  have kw: "keeps_waiting ProcessEvents future (sdk w) (Suc (Suc 0))"
    using assms(1-4) by simp
  have c: "status (future (sdk_after ProcessEvents (Suc (Suc 0)) (sdk w))) = kFutureStatusComplete"
    using assms(5) by simp
  show ?thesis
    unfolding WaitForFuture_after_polls [OF kw c] Let_def
    using assms(6)
    by (simp add: polled_def LogMessage_def success_report_expected success_report_expected_null [simplified])
qed

theorem WaitForFuture_two_polls_witness:
  "WaitForFuture (\<lambda>msec n. (False, Suc n))
     (\<lambda>n. \<lparr>status = (if n < 2 then kFutureStatusPending else kFutureStatusComplete),
            error = 0, error_message = (if n < 2 then None else Some []), result = None\<rparr>)
     ''GetToken()'' 0 True \<lparr>sdk = 0::nat, trace = []\<rparr> =
   Some (False, \<lparr>sdk = 2, trace = [Logged ''  Calling %s...'' [StrArg (Some ''GetToken()'')],
                                    Pumped 100, Pumped 100,
                                    Logged ''%s completed as expected'' [StrArg (Some ''GetToken()'')]]\<rparr>)"
  using WaitForFuture_two_polls [where ProcessEvents = "\<lambda>msec n. (False, Suc n)"
      and future = "\<lambda>n. \<lparr>status = (if n < 2 then kFutureStatusPending else kFutureStatusComplete),
            error = 0, error_message = (if n < 2 then None else Some []), result = None\<rparr>"
      and w = "\<lparr>sdk = 0::nat, trace = []\<rparr>" and fn = "''GetToken()''" and expected_error = 0]
  by (simp add: Let_def eval_nat_numeral)

text \<open>
  C10. With \<^verbatim>\<open>log_error = false\<close>, a future that becomes complete with no shutdown on the
  way gets no report of the comparison, whatever its error code and the expected one:
  the trace holds the announcement of the call and the polls only, and the result is
  \<^verbatim>\<open>false\<close>.
\<close>

theorem WaitForFuture_silent:
  assumes "\<forall>j<k. status (future (sdk_after ProcessEvents j (sdk w))) = kFutureStatusPending
                \<and> \<not> fst (ProcessEvents 100 (sdk_after ProcessEvents j (sdk w)))"
    and "status (future (sdk_after ProcessEvents k (sdk w))) = kFutureStatusComplete"
  shows "WaitForFuture ProcessEvents future fn expected_error False w =
           Some (False, w\<lparr>sdk := sdk_after ProcessEvents k (sdk w),
                          trace := trace w @ Logged ''  Calling %s...'' [StrArg (Some fn)]
                                     # replicate k (Pumped 100)\<rparr>)"
proof -
  have kw: "keeps_waiting ProcessEvents future (sdk w) k"
    using assms(1) by (simp add: keeps_waiting_iff)
  show ?thesis
    unfolding WaitForFuture_after_polls [OF kw assms(2)] Let_def
    by (simp add: polled_def LogMessage_def del: sdk_after.simps)
qed

theorem WaitForFuture_silent_witness:
  "WaitForFuture (\<lambda>msec n. (False, Suc n))
     (\<lambda>n. \<lparr>status = (if n < 1 then kFutureStatusPending else kFutureStatusComplete),
            error = 1, error_message = Some ''failed'', result = None\<rparr>)
     ''User::Delete()'' 0 False \<lparr>sdk = 0::nat, trace = []\<rparr> =
   Some (False, \<lparr>sdk = 1, trace = [Logged ''  Calling %s...'' [StrArg (Some ''User::Delete()'')],
                                    Pumped 100]\<rparr>)"
  using WaitForFuture_silent [where k = 1 and ProcessEvents = "\<lambda>msec n. (False, Suc n)"
      and future = "\<lambda>n. \<lparr>status = (if n < 1 then kFutureStatusPending else kFutureStatusComplete),
            error = 1, error_message = Some ''failed'', result = None\<rparr>"
      and w = "\<lparr>sdk = 0::nat, trace = []\<rparr>" and fn = "''User::Delete()''" and expected_error = 0]
  by simp

text \<open>
  C9. \<^verbatim>\<open>WaitForSignInFuture\<close> returns what \<^verbatim>\<open>WaitForFuture\<close> (with logging on) returns on the
  same future, and does not return when that does not. When \<^verbatim>\<open>WaitForFuture\<close> returns
  \<^verbatim>\<open>true\<close> nothing more is done: the world is the one \<^verbatim>\<open>WaitForFuture\<close> left. When it
  returns \<^verbatim>\<open>false\<close> the result is \<^verbatim>\<open>false\<close> too, and a user of the future that is not
  the current user of \<^verbatim>\<open>auth\<close> only adds one report to the trace.
\<close>

theorem WaitForSignInFuture_returns:
  "map_option fst (WaitForSignInFuture ProcessEvents sign_in_future fn expected_error auth w) =
     map_option fst (WaitForFuture ProcessEvents sign_in_future fn expected_error True w)
   \<and> (\<forall>w1. WaitForFuture ProcessEvents sign_in_future fn expected_error True w = Some (True, w1) \<longrightarrow>
          WaitForSignInFuture ProcessEvents sign_in_future fn expected_error auth w = Some (True, w1))
   \<and> (\<forall>w1. WaitForFuture ProcessEvents sign_in_future fn expected_error True w = Some (False, w1) \<longrightarrow>
          WaitForSignInFuture ProcessEvents sign_in_future fn expected_error auth w =
            Some (False,
              if (case result (sign_in_future (sdk w1)) of None \<Rightarrow> nullptr | Some u \<Rightarrow> u)
                   \<noteq> current_user (auth (sdk w1))
              then w1\<lparr>trace := trace w1 @
                     [Logged (''ERROR: future'' @ [CHR 0x27] @ ''s user (%x) and current_user (%x) don''
                                @ [CHR 0x27] @ ''t match'')
                        [IntArg (ucast (case result (sign_in_future (sdk w1)) of
                                          None \<Rightarrow> nullptr | Some u \<Rightarrow> u)),
                         IntArg (ucast (current_user (auth (sdk w1))))]]\<rparr>
              else w1))"
  by (auto simp: WaitForSignInFuture_def LogMessage_def Let_def split: option.splits bool.splits)

theorem WaitForSignInFuture_returns_witness:
  "WaitForFuture (\<lambda>msec n. (False, Suc n))
     (\<lambda>n. \<lparr>status = kFutureStatusComplete, error = 0, error_message = Some [], result = Some 4096\<rparr>)
     ''Auth::SignInAnonymously()'' 0 True \<lparr>sdk = 0::nat, trace = []\<rparr> =
   Some (False, \<lparr>sdk = 0, trace = [Logged ''  Calling %s...'' [StrArg (Some ''Auth::SignInAnonymously()'')],
                  Logged ''%s completed as expected'' [StrArg (Some ''Auth::SignInAnonymously()'')]]\<rparr>)
   \<and> WaitForSignInFuture (\<lambda>msec n. (False, Suc n))
     (\<lambda>n. \<lparr>status = kFutureStatusComplete, error = 0, error_message = Some [], result = Some 4096\<rparr>)
     ''Auth::SignInAnonymously()'' 0 (\<lambda>n. \<lparr>current_user = 8192\<rparr>) \<lparr>sdk = 0::nat, trace = []\<rparr> =
   Some (False, \<lparr>sdk = 0, trace = [Logged ''  Calling %s...'' [StrArg (Some ''Auth::SignInAnonymously()'')],
                  Logged ''%s completed as expected'' [StrArg (Some ''Auth::SignInAnonymously()'')],
                  Logged (''ERROR: future'' @ [CHR 0x27] @ ''s user (%x) and current_user (%x) don''
                            @ [CHR 0x27] @ ''t match'') [IntArg 4096, IntArg 8192]]\<rparr>)
   \<and> WaitForFuture (\<lambda>msec n. (True, Suc n))
     (\<lambda>n. \<lparr>status = kFutureStatusPending, error = 0, error_message = None, result = None\<rparr>)
     ''Auth::SignInAnonymously()'' 0 True \<lparr>sdk = 0::nat, trace = []\<rparr> =
   Some (True, \<lparr>sdk = 1, trace = [Logged ''  Calling %s...'' [StrArg (Some ''Auth::SignInAnonymously()'')],
                  Pumped 100]\<rparr>)
   \<and> WaitForSignInFuture (\<lambda>msec n. (True, Suc n))
     (\<lambda>n. \<lparr>status = kFutureStatusPending, error = 0, error_message = None, result = None\<rparr>)
     ''Auth::SignInAnonymously()'' 0 (\<lambda>n. \<lparr>current_user = 8192\<rparr>) \<lparr>sdk = 0::nat, trace = []\<rparr> =
   Some (True, \<lparr>sdk = 1, trace = [Logged ''  Calling %s...'' [StrArg (Some ''Auth::SignInAnonymously()'')],
                  Pumped 100]\<rparr>)"
proof -
  let ?pe = "\<lambda>(msec :: cint) (n :: nat). (False, Suc n)"
  let ?f = "\<lambda>n :: nat. \<lparr>status = kFutureStatusComplete, error = 0, error_message = Some [], result = Some (4096 :: ptr)\<rparr>"
  let ?qe = "\<lambda>(msec :: cint) (n :: nat). (True, Suc n)"
  let ?g = "\<lambda>n :: nat. \<lparr>status = kFutureStatusPending, error = 0, error_message = None, result = (None :: ptr option)\<rparr>"
  let ?auth = "\<lambda>n :: nat. \<lparr>current_user = (8192 :: ptr)\<rparr>"
  let ?w = "\<lparr>sdk = 0::nat, trace = []\<rparr>"
  let ?fn = "''Auth::SignInAnonymously()''"
  have base: "WaitForFuture ?pe ?f ?fn 0 True ?w =
      Some (False, \<lparr>sdk = 0, trace = [Logged ''  Calling %s...'' [StrArg (Some ?fn)],
                  Logged ''%s completed as expected'' [StrArg (Some ?fn)]]\<rparr>)"
    by (simp add: WaitForFuture_def WaitForFuture_loop.simps LogMessage_def)
  have quit: "WaitForFuture ?qe ?g ?fn 0 True ?w =
      Some (True, \<lparr>sdk = 1, trace = [Logged ''  Calling %s...'' [StrArg (Some ?fn)], Pumped 100]\<rparr>)"
    by (simp add: WaitForFuture_def WaitForFuture_loop.simps LogMessage_def)
  show ?thesis
    using WaitForSignInFuture_returns [where ProcessEvents = ?pe and sign_in_future = ?f
        and fn = ?fn and expected_error = 0 and auth = ?auth and w = ?w]
      WaitForSignInFuture_returns [where ProcessEvents = ?qe and sign_in_future = ?g
        and fn = ?fn and expected_error = 0 and auth = ?auth and w = ?w]
    by (simp add: base quit)
qed

section \<open>The claims about the counters\<close>

text \<open>
  C4. A counter as constructed (which is also the counter any \<^verbatim>\<open>CompleteTest\<close> leaves)
  that is notified \<open>n\<close> times holds the count \<open>n\<close>, for every \<open>n\<close> an \<^verbatim>\<open>int\<close> can
  hold. \<^verbatim>\<open>CompleteTest(test_name, min, max)\<close> then writes one report, which is classified
  as an error exactly when \<open>min \<le> n \<le> max\<close> fails, and in both cases leaves the count 0.
  This holds for \<^verbatim>\<open>AuthStateChangeCounter\<close> and for \<^verbatim>\<open>IdTokenChangeCounter\<close>.
\<close>

theorem CompleteTest_range:
  assumes "n < 2 ^ 31"
  shows "(case notified (OnAuthStateChanged auth) n AuthStateChangeCounter_new w of
            None \<Rightarrow> False
          | Some (this1, w1) \<Rightarrow>
              sint (num_state_changes this1) = int n \<and>
              (case AuthStateChangeCounter_CompleteTest test_name mn mx this1 w1 of
                 (this2, w2) \<Rightarrow>
                   this2 = AuthStateChangeCounter_new \<and> num_state_changes this2 = 0
                   \<and> sdk w2 = sdk w1 \<and> trace w2 = trace w1 @ [last (trace w2)]
                   \<and> (error_report (last (trace w2)) \<longleftrightarrow> \<not> (sint mn \<le> int n \<and> int n \<le> sint mx))))
       \<and> (case notified (OnIdTokenChanged auth) n IdTokenChangeCounter_new w of
            None \<Rightarrow> False
          | Some (this1, w1) \<Rightarrow>
              sint (num_token_changes this1) = int n \<and>
              (case IdTokenChangeCounter_CompleteTest test_name mn mx this1 w1 of
                 (this2, w2) \<Rightarrow>
                   this2 = IdTokenChangeCounter_new \<and> num_token_changes this2 = 0
                   \<and> sdk w2 = sdk w1 \<and> trace w2 = trace w1 @ [last (trace w2)]
                   \<and> (error_report (last (trace w2)) \<longleftrightarrow> \<not> (sint mn \<le> int n \<and> int n \<le> sint mx))))"
proof (rule conjI)
  from notified_AuthStateChangeCounter_new [OF assms, of auth w] obtain this1 w1 where
    n: "notified (OnAuthStateChanged auth) n AuthStateChangeCounter_new w = Some (this1, w1)"
    and c: "sint (num_state_changes this1) = int n"
    by blast
  obtain this2 w2 where
    t: "AuthStateChangeCounter_CompleteTest test_name mn mx this1 w1 = (this2, w2)"
    by (cases "AuthStateChangeCounter_CompleteTest test_name mn mx this1 w1")
  have "this2 = AuthStateChangeCounter_new"
    using AuthStateChangeCounter_CompleteTest_new [of test_name mn mx this1 w1] t by simp
  with AuthStateChangeCounter_CompleteTest_report [OF t] c
  show "case notified (OnAuthStateChanged auth) n AuthStateChangeCounter_new w of
            None \<Rightarrow> False
          | Some (this1, w1) \<Rightarrow>
              sint (num_state_changes this1) = int n \<and>
              (case AuthStateChangeCounter_CompleteTest test_name mn mx this1 w1 of
                 (this2, w2) \<Rightarrow>
                   this2 = AuthStateChangeCounter_new \<and> num_state_changes this2 = 0
                   \<and> sdk w2 = sdk w1 \<and> trace w2 = trace w1 @ [last (trace w2)]
                   \<and> (error_report (last (trace w2)) \<longleftrightarrow> \<not> (sint mn \<le> int n \<and> int n \<le> sint mx)))"
    by (simp add: n t)
next
  from notified_IdTokenChangeCounter_new [OF assms, of auth w] obtain this1 w1 where
    n: "notified (OnIdTokenChanged auth) n IdTokenChangeCounter_new w = Some (this1, w1)"
    and c: "sint (num_token_changes this1) = int n"
    by blast
  obtain this2 w2 where
    t: "IdTokenChangeCounter_CompleteTest test_name mn mx this1 w1 = (this2, w2)"
    by (cases "IdTokenChangeCounter_CompleteTest test_name mn mx this1 w1")
  have "this2 = IdTokenChangeCounter_new"
    using IdTokenChangeCounter_CompleteTest_new [of test_name mn mx this1 w1] t by simp
  with IdTokenChangeCounter_CompleteTest_report [OF t] c
  show "case notified (OnIdTokenChanged auth) n IdTokenChangeCounter_new w of
            None \<Rightarrow> False
          | Some (this1, w1) \<Rightarrow>
              sint (num_token_changes this1) = int n \<and>
              (case IdTokenChangeCounter_CompleteTest test_name mn mx this1 w1 of
                 (this2, w2) \<Rightarrow>
                   this2 = IdTokenChangeCounter_new \<and> num_token_changes this2 = 0
                   \<and> sdk w2 = sdk w1 \<and> trace w2 = trace w1 @ [last (trace w2)]
                   \<and> (error_report (last (trace w2)) \<longleftrightarrow> \<not> (sint mn \<le> int n \<and> int n \<le> sint mx)))"
    by (simp add: n t)
qed

theorem CompleteTest_range_witness:
  "(case notified (OnAuthStateChanged (\<lambda>s. \<lparr>current_user = 4096\<rparr>)) 3 AuthStateChangeCounter_new
          \<lparr>sdk = (), trace = []\<rparr> of
      None \<Rightarrow> False
    | Some (this1, w1) \<Rightarrow>
        sint (num_state_changes this1) = 3
        \<and> \<not> error_report (last (trace (snd (AuthStateChangeCounter_CompleteTest ''x'' 2 4 this1 w1))))
        \<and> fst (AuthStateChangeCounter_CompleteTest ''x'' 2 4 this1 w1) = AuthStateChangeCounter_new)
   \<and> (case notified (OnIdTokenChanged (\<lambda>s. \<lparr>current_user = 4096\<rparr>)) 5 IdTokenChangeCounter_new
          \<lparr>sdk = (), trace = []\<rparr> of
      None \<Rightarrow> False
    | Some (this1, w1) \<Rightarrow>
        sint (num_token_changes this1) = 5
        \<and> error_report (last (trace (snd (IdTokenChangeCounter_CompleteTest ''x'' 1 2 this1 w1))))
        \<and> fst (IdTokenChangeCounter_CompleteTest ''x'' 1 2 this1 w1) = IdTokenChangeCounter_new)"
proof -
  have h3: "(3::nat) < 2 ^ 31" and h5: "(5::nat) < 2 ^ 31"
    by simp_all
  note a = CompleteTest_range [OF h3, where auth = "\<lambda>s. \<lparr>current_user = 4096\<rparr>"
      and w = "\<lparr>sdk = (), trace = []\<rparr>" and test_name = "''x''" and mn = 2 and mx = 4,
      THEN conjunct1]
  note b = CompleteTest_range [OF h5, where auth = "\<lambda>s. \<lparr>current_user = 4096\<rparr>"
      and w = "\<lparr>sdk = (), trace = []\<rparr>" and test_name = "''x''" and mn = 1 and mx = 2,
      THEN conjunct2]
  show ?thesis
    using a b by (auto simp: split_beta split: option.splits)
qed

text \<open>
  C7. Each notification adds exactly 1 to the count (unless the count is the largest
  \<^verbatim>\<open>int\<close>), so after \<open>n\<close> notifications of a counter as constructed,
  \<^verbatim>\<open>CompleteTest(test_name, n, n)\<close> reports success; the count is then 0, and a
  \<^verbatim>\<open>CompleteTest(test_name, 0, 0)\<close> that follows reports success as well.
\<close>

theorem CompleteTest_exact_count:
  assumes "n < 2 ^ 31"
  shows "(case OnAuthStateChanged auth this w of
            None \<Rightarrow> sint (num_state_changes this) = 2 ^ 31 - 1
          | Some (this1, w1) \<Rightarrow> sint (num_state_changes this1) = sint (num_state_changes this) + 1)
       \<and> (case notified (OnAuthStateChanged auth) n AuthStateChangeCounter_new w of
            None \<Rightarrow> False
          | Some (this1, w1) \<Rightarrow>
              sint (num_state_changes this1) = int n \<and>
              (case AuthStateChangeCounter_CompleteTest test_name (of_nat n) (of_nat n) this1 w1 of
                 (this2, w2) \<Rightarrow>
                   num_state_changes this2 = 0 \<and> \<not> error_report (last (trace w2))
                   \<and> (case AuthStateChangeCounter_CompleteTest test_name 0 0 this2 w2 of
                         (this3, w3) \<Rightarrow>
                           num_state_changes this3 = 0 \<and> \<not> error_report (last (trace w3)))))
       \<and> (case OnIdTokenChanged auth that w of
            None \<Rightarrow> sint (num_token_changes that) = 2 ^ 31 - 1
          | Some (that1, w1) \<Rightarrow> sint (num_token_changes that1) = sint (num_token_changes that) + 1)
       \<and> (case notified (OnIdTokenChanged auth) n IdTokenChangeCounter_new w of
            None \<Rightarrow> False
          | Some (this1, w1) \<Rightarrow>
              sint (num_token_changes this1) = int n \<and>
              (case IdTokenChangeCounter_CompleteTest test_name (of_nat n) (of_nat n) this1 w1 of
                 (this2, w2) \<Rightarrow>
                   num_token_changes this2 = 0 \<and> \<not> error_report (last (trace w2))
                   \<and> (case IdTokenChangeCounter_CompleteTest test_name 0 0 this2 w2 of
                         (this3, w3) \<Rightarrow>
                           num_token_changes this3 = 0 \<and> \<not> error_report (last (trace w3)))))"
proof (intro conjI)
  show "case OnAuthStateChanged auth this w of
            None \<Rightarrow> sint (num_state_changes this) = 2 ^ 31 - 1
          | Some (this1, w1) \<Rightarrow> sint (num_state_changes this1) = sint (num_state_changes this) + 1"
    by (rule OnAuthStateChanged_adds_one)
  show "case OnIdTokenChanged auth that w of
            None \<Rightarrow> sint (num_token_changes that) = 2 ^ 31 - 1
          | Some (that1, w1) \<Rightarrow> sint (num_token_changes that1) = sint (num_token_changes that) + 1"
    by (rule OnIdTokenChanged_adds_one)
  from notified_AuthStateChangeCounter_new [OF assms, of auth w] obtain this1 w1 where
    n: "notified (OnAuthStateChanged auth) n AuthStateChangeCounter_new w = Some (this1, w1)"
    and c: "sint (num_state_changes this1) = int n"
    by blast
  show "case notified (OnAuthStateChanged auth) n AuthStateChangeCounter_new w of
            None \<Rightarrow> False
          | Some (this1, w1) \<Rightarrow>
              sint (num_state_changes this1) = int n \<and>
              (case AuthStateChangeCounter_CompleteTest test_name (of_nat n) (of_nat n) this1 w1 of
                 (this2, w2) \<Rightarrow>
                   num_state_changes this2 = 0 \<and> \<not> error_report (last (trace w2))
                   \<and> (case AuthStateChangeCounter_CompleteTest test_name 0 0 this2 w2 of
                         (this3, w3) \<Rightarrow>
                           num_state_changes this3 = 0 \<and> \<not> error_report (last (trace w3))))"
    using AuthStateChangeCounter_exact_then_zero [OF c assms, of test_name w1] c
    by (simp add: n)
  from notified_IdTokenChangeCounter_new [OF assms, of auth w] obtain that1 v1 where
    m: "notified (OnIdTokenChanged auth) n IdTokenChangeCounter_new w = Some (that1, v1)"
    and d: "sint (num_token_changes that1) = int n"
    by blast
  show "case notified (OnIdTokenChanged auth) n IdTokenChangeCounter_new w of
            None \<Rightarrow> False
          | Some (this1, w1) \<Rightarrow>
              sint (num_token_changes this1) = int n \<and>
              (case IdTokenChangeCounter_CompleteTest test_name (of_nat n) (of_nat n) this1 w1 of
                 (this2, w2) \<Rightarrow>
                   num_token_changes this2 = 0 \<and> \<not> error_report (last (trace w2))
                   \<and> (case IdTokenChangeCounter_CompleteTest test_name 0 0 this2 w2 of
                         (this3, w3) \<Rightarrow>
                           num_token_changes this3 = 0 \<and> \<not> error_report (last (trace w3))))"
    using IdTokenChangeCounter_exact_then_zero [OF d assms, of test_name v1] d
    by (simp add: m)
qed

theorem CompleteTest_exact_count_witness:
  "(case notified (OnAuthStateChanged (\<lambda>s. \<lparr>current_user = 4096\<rparr>)) 3 AuthStateChangeCounter_new
          \<lparr>sdk = (), trace = []\<rparr> of
      None \<Rightarrow> False
    | Some (this1, w1) \<Rightarrow>
        sint (num_state_changes this1) = 3
        \<and> \<not> error_report (last (trace (snd (AuthStateChangeCounter_CompleteTest ''x'' 3 3 this1 w1))))
        \<and> num_state_changes (fst (AuthStateChangeCounter_CompleteTest ''x'' 3 3 this1 w1)) = 0)
   \<and> (case notified (OnIdTokenChanged (\<lambda>s. \<lparr>current_user = 4096\<rparr>)) 3 IdTokenChangeCounter_new
          \<lparr>sdk = (), trace = []\<rparr> of
      None \<Rightarrow> False
    | Some (this1, w1) \<Rightarrow>
        sint (num_token_changes this1) = 3
        \<and> \<not> error_report (last (trace (snd (IdTokenChangeCounter_CompleteTest ''x'' 3 3 this1 w1))))
        \<and> num_token_changes (fst (IdTokenChangeCounter_CompleteTest ''x'' 3 3 this1 w1)) = 0)"
proof -
  have h3: "(3::nat) < 2 ^ 31"
    by simp
  note a = CompleteTest_exact_count [OF h3, where auth = "\<lambda>s. \<lparr>current_user = 4096\<rparr>"
      and w = "\<lparr>sdk = (), trace = []\<rparr>" and test_name = "''x''"
      and this = AuthStateChangeCounter_new and that = IdTokenChangeCounter_new]
  show ?thesis
    using a [THEN conjunct2, THEN conjunct1] a [THEN conjunct2, THEN conjunct2, THEN conjunct2]
    by (auto simp: split_beta split: option.splits)
qed

text \<open>
  C8. \<^verbatim>\<open>CompleteTest(test_name, k)\<close> is \<^verbatim>\<open>CompleteTest(test_name, k, k)\<close>: the same counter
  (its count 0) and the same world, so the same report, for both classes.
\<close>

theorem CompleteTest_exact_is_range:
  "AuthStateChangeCounter_CompleteTest_exact test_name k this w =
     AuthStateChangeCounter_CompleteTest test_name k k this w
   \<and> num_state_changes (fst (AuthStateChangeCounter_CompleteTest_exact test_name k this w)) = 0
   \<and> IdTokenChangeCounter_CompleteTest_exact test_name k that w =
     IdTokenChangeCounter_CompleteTest test_name k k that w
   \<and> num_token_changes (fst (IdTokenChangeCounter_CompleteTest_exact test_name k that w)) = 0"
  by (simp add: AuthStateChangeCounter_CompleteTest_exact_def
      IdTokenChangeCounter_CompleteTest_exact_def AuthStateChangeCounter_CompleteTest_def
      IdTokenChangeCounter_CompleteTest_def Let_def)

end
